theory Spec2Isabelle
  imports Complex_Main "HOL-Library.Word"
begin

section \<open>The playground: JavaScript strings and JSON values\<close>

text \<open>
  A JavaScript string is a sequence of UTF-16 code units. The literals of
  \<^verbatim>\<open>playground.js\<close> are ASCII; \<open>js\<close> turns an ASCII literal into its code units.
\<close>

type_synonym jsstring = "16 word list"

definition js :: "string \<Rightarrow> jsstring" where
  "js s = map (\<lambda>c. of_nat (of_char c)) s"

text \<open>
  \<^verbatim>\<open>String.prototype.trim\<close> removes the code units of WhiteSpace and LineTerminator
  (ECMAScript 12.2, 12.3) from both ends: TAB, LF, VT, FF, CR, SP, NBSP, U+1680,
  U+2000..U+200A, U+2028, U+2029, U+202F, U+205F, U+3000 and U+FEFF.
\<close>

definition is_ws :: "16 word \<Rightarrow> bool" where
  "is_ws c \<longleftrightarrow>
     c = 0x0009 \<or> c = 0x000A \<or> c = 0x000B \<or> c = 0x000C \<or> c = 0x000D \<or> c = 0x0020 \<or>
     c = 0x00A0 \<or> c = 0x1680 \<or> (0x2000 \<le> c \<and> c \<le> 0x200A) \<or> c = 0x2028 \<or>
     c = 0x2029 \<or> c = 0x202F \<or> c = 0x205F \<or> c = 0x3000 \<or> c = 0xFEFF"

definition trim :: "jsstring \<Rightarrow> jsstring" where
  "trim s = rev (dropWhile is_ws (rev (dropWhile is_ws s)))"

text \<open>
  The values \<^verbatim>\<open>JSON.parse\<close> returns. A Number is kept as what \<^verbatim>\<open>JSON.stringify\<close>
  reads of it: the text of \<^verbatim>\<open>ToString\<close> when it is finite, and nothing more when it is
  not (\<^verbatim>\<open>JSON.parse("1e999")\<close> is \<^verbatim>\<open>Infinity\<close>). An object is the list of its own
  enumerable properties in enumeration order.
\<close>

datatype jsnumber = Finite jsstring | NonFinite

datatype json =
    JNull
  | JBool bool
  | JNum jsnumber
  | JStr jsstring
  | JArr "json list"
  | JObj "(jsstring \<times> json) list"

subsection \<open>\<^verbatim>\<open>JSON.stringify\<close>\<close>

definition hex_digit :: "nat \<Rightarrow> 16 word" where
  "hex_digit d = (if d < 10 then of_nat (48 + d) else of_nat (87 + d))"

text \<open>UnicodeEscape (ECMAScript 25.5.2.4): a backslash, \<open>u\<close> and four lowercase hex digits.\<close>

definition unicode_escape :: "16 word \<Rightarrow> jsstring" where
  "unicode_escape c =
     [0x5C, 0x75,
      hex_digit (unat c div 4096 mod 16), hex_digit (unat c div 256 mod 16),
      hex_digit (unat c div 16 mod 16), hex_digit (unat c mod 16)]"

definition is_lead :: "16 word \<Rightarrow> bool" where
  "is_lead c \<longleftrightarrow> 0xD800 \<le> c \<and> c \<le> 0xDBFF"

definition is_trail :: "16 word \<Rightarrow> bool" where
  "is_trail c \<longleftrightarrow> 0xDC00 \<le> c \<and> c \<le> 0xDFFF"

text \<open>
  One code unit that is not a surrogate, as QuoteJSONString writes it: the two-character
  escapes for BS, TAB, LF, FF, CR, the double quote and the backslash (0x5C), a Unicode
  escape for the other control characters, the unit itself otherwise.
\<close>

definition quote_unit :: "16 word \<Rightarrow> jsstring" where
  "quote_unit c =
     (if c = 0x08 then [0x5C, 0x62]
      else if c = 0x09 then [0x5C, 0x74]
      else if c = 0x0A then [0x5C, 0x6E]
      else if c = 0x0C then [0x5C, 0x66]
      else if c = 0x0D then [0x5C, 0x72]
      else if c = 0x22 then [0x5C, 0x22]
      else if c = 0x5C then [0x5C, 0x5C]
      else if c < 0x20 then unicode_escape c
      else [c])"

text \<open>
  QuoteJSONString walks the code points of the string: a lead surrogate followed by a
  trail surrogate is one code point and is copied; a surrogate alone is escaped.
\<close>

fun quote_units :: "jsstring \<Rightarrow> jsstring" where
  "quote_units [] = []"
| "quote_units [c] =
     (if is_lead c \<or> is_trail c then unicode_escape c else quote_unit c)"
| "quote_units (c # d # cs) =
     (if is_lead c \<and> is_trail d then c # d # quote_units cs
      else if is_lead c \<or> is_trail c then unicode_escape c @ quote_units (d # cs)
      else quote_unit c @ quote_units (d # cs))"

definition quote :: "jsstring \<Rightarrow> jsstring" where
  "quote s = [0x22] @ quote_units s @ [0x22]"

fun join :: "jsstring \<Rightarrow> jsstring list \<Rightarrow> jsstring" where
  "join sep [] = []"
| "join sep [x] = x"
| "join sep (x # y # ys) = x @ sep @ join sep (y # ys)"

text \<open>
  SerializeJSONProperty, SerializeJSONObject and SerializeJSONArray (ECMAScript 25.5.2)
  on the values above, with the replacer absent. \<open>gap\<close> is the indentation unit
  (empty for \<^verbatim>\<open>JSON.stringify(v)\<close>, two spaces for \<^verbatim>\<open>JSON.stringify(v, null, 2)\<close>) and
  \<open>indent\<close> the indentation reached so far.
\<close>

fun serialize :: "jsstring \<Rightarrow> jsstring \<Rightarrow> json \<Rightarrow> jsstring" where
  "serialize gap indent JNull = js ''null''"
| "serialize gap indent (JBool b) = (if b then js ''true'' else js ''false'')"
| "serialize gap indent (JNum (Finite s)) = s"
| "serialize gap indent (JNum NonFinite) = js ''null''"
| "serialize gap indent (JStr s) = quote s"
| "serialize gap indent (JArr vs) =
     (if vs = [] then js ''[]''
      else if gap = [] then
        js ''['' @ join (js '','') (map (serialize gap (indent @ gap)) vs) @ js '']''
      else
        js ''['' @ [0x0A] @ (indent @ gap) @
        join (js '','' @ [0x0A] @ (indent @ gap)) (map (serialize gap (indent @ gap)) vs) @
        [0x0A] @ indent @ js '']'')"
| "serialize gap indent (JObj kvs) =
     (if kvs = [] then js ''{}''
      else if gap = [] then
        js ''{'' @
        join (js '','')
          (map (\<lambda>kv. quote (fst kv) @ js '':'' @ serialize gap (indent @ gap) (snd kv)) kvs) @
        js ''}''
      else
        js ''{'' @ [0x0A] @ (indent @ gap) @
        join (js '','' @ [0x0A] @ (indent @ gap))
          (map (\<lambda>kv. quote (fst kv) @ js '': '' @ serialize gap (indent @ gap) (snd kv)) kvs) @
        [0x0A] @ indent @ js ''}'')"

text \<open>
  \<^verbatim>\<open>JSON.stringify\<close> recurses on the value and throws a \<^verbatim>\<open>RangeError\<close> when a deeply
  nested value exhausts the stack of the engine. Where that happens is the engine's
  matter: \<open>exhausted gap v\<close> says whether the call with the indentation \<open>gap\<close> on the
  value \<open>v\<close> throws, and \<open>None\<close> is the throw.
\<close>

definition JSON_stringify :: "(jsstring \<Rightarrow> json \<Rightarrow> bool) \<Rightarrow> jsstring \<Rightarrow> json \<Rightarrow> jsstring option" where
  "JSON_stringify exhausted gap v = (if exhausted gap v then None else Some (serialize gap [] v))"

section \<open>The playground: \<^verbatim>\<open>callApi\<close>\<close>

text \<open>
  The five elements \<^verbatim>\<open>callApi\<close> looks up with \<^verbatim>\<open>document.getElementById\<close>. A field is
  \<open>None\<close> when the page has no element of that id, and otherwise holds what the
  function reads or writes of it: the \<^verbatim>\<open>value\<close> of the three form controls and the
  \<^verbatim>\<open>textContent\<close> of the two \<^verbatim>\<open>pre\<close> elements.
\<close>

record page =
  methodEl :: "jsstring option"
  paramsEl :: "jsstring option"
  reqidEl :: "jsstring option"
  requestPreviewEl :: "jsstring option"
  responseBoxEl :: "jsstring option"

text \<open>A call of \<^verbatim>\<open>fetch(url, {method, headers, body})\<close>.\<close>

record request =
  url :: jsstring
  http_method :: jsstring
  headers :: "(jsstring \<times> jsstring) list"
  body :: jsstring

text \<open>Step 3 of \<^verbatim>\<open>callApi\<close>: the object literal and the conditional \<^verbatim>\<open>id\<close> property.\<close>

definition bodyObj :: "jsstring \<Rightarrow> json \<Rightarrow> jsstring \<Rightarrow> json" where
  "bodyObj method paramsObj reqid =
     JObj ([(js ''jsonrpc'', JStr (js ''2.0'')),
            (js ''method'', JStr method),
            (js ''params'', paramsObj)] @
           (if reqid \<noteq> [] then [(js ''id'', JStr reqid)] else []))"

definition fetch_request :: "jsstring \<Rightarrow> request" where
  "fetch_request bodyStr =
     \<lparr>url = js ''https://api.citronus.com/public/v1/jsonrpc'',
      http_method = js ''POST'',
      headers = [(js ''Content-Type'', js ''application/json'')],
      body = bodyStr\<rparr>"

text \<open>
  \<^verbatim>\<open>callApi\<close>, with the things it takes from outside as parameters:
  \<^item> \<open>JSON_parse\<close> is \<^verbatim>\<open>JSON.parse\<close>: \<open>Inr v\<close> for the parsed value, \<open>Inl e\<close> when it
    throws, \<open>e\<close> being the thrown error converted to a string;
  \<^item> \<open>exhausted\<close> says where \<^verbatim>\<open>JSON.stringify\<close> throws;
  \<^item> \<open>fetch\<close> is the network: \<open>Inr text\<close> is the text of the response, \<open>Inl err\<close> the
    rejection of \<^verbatim>\<open>fetch\<close> or of \<^verbatim>\<open>resp.text()\<close>, converted to a string.
  The result is the page afterwards and the list of the \<^verbatim>\<open>fetch\<close> calls made.

  \<^verbatim>\<open>JSON.stringify(bodyObj)\<close> stands between the two \<^verbatim>\<open>try\<close> blocks: when it throws,
  the exception leaves \<^verbatim>\<open>callApi\<close> (the promise of the function rejects, and the click
  handler drops it) before the preview is written and before \<^verbatim>\<open>fetch\<close> is called.
  \<^verbatim>\<open>JSON.stringify(json, null, 2)\<close> stands inside the inner \<^verbatim>\<open>try\<close>: when it throws, the
  \<^verbatim>\<open>catch\<close> shows the text of the response as it came.
\<close>

definition callApi ::
  "(jsstring \<Rightarrow> jsstring + json) \<Rightarrow> (jsstring \<Rightarrow> json \<Rightarrow> bool) \<Rightarrow>
     (request \<Rightarrow> jsstring + jsstring) \<Rightarrow> page \<Rightarrow> page \<times> request list" where
  "callApi JSON_parse exhausted fetch pg =
     (case (methodEl pg, paramsEl pg, reqidEl pg, requestPreviewEl pg, responseBoxEl pg) of
        (Some method, Some paramsText, Some reqidValue, Some _, Some _) \<Rightarrow>
          let reqid = trim reqidValue in
          (case (if paramsText \<noteq> [] then JSON_parse paramsText else Inr (JObj [])) of
             Inl e \<Rightarrow>
               (pg\<lparr>responseBoxEl := Some (js ''Params JSON parse error:'' @ [0x0A] @ e)\<rparr>, [])
           | Inr paramsObj \<Rightarrow>
               (case JSON_stringify exhausted [] (bodyObj method paramsObj reqid) of
                  None \<Rightarrow> (pg, [])
                | Some bodyStr \<Rightarrow>
                    let pg1 = pg\<lparr>requestPreviewEl := Some bodyStr\<rparr>;
                        req = fetch_request bodyStr
                    in (case fetch req of
                          Inr text \<Rightarrow>
                            (case JSON_parse text of
                               Inr json \<Rightarrow>
                                 (case JSON_stringify exhausted (js ''  '') json of
                                    Some pretty \<Rightarrow> (pg1\<lparr>responseBoxEl := Some pretty\<rparr>, [req])
                                  | None \<Rightarrow> (pg1\<lparr>responseBoxEl := Some text\<rparr>, [req]))
                             | Inl _ \<Rightarrow> (pg1\<lparr>responseBoxEl := Some text\<rparr>, [req]))
                        | Inl err \<Rightarrow>
                            (pg1\<lparr>responseBoxEl := Some (js ''Request failed:'' @ [0x0A] @ err)\<rparr>,
                             [req]))))
      | _ \<Rightarrow> (pg, []))"

text \<open>
  Whether a header name starts with \<^verbatim>\<open>X-CITRO-\<close>, the prefix of the four private headers
  of the documentation; header names are compared without regard to ASCII case.
\<close>

definition ascii_lower :: "16 word \<Rightarrow> 16 word" where
  "ascii_lower c = (if 0x41 \<le> c \<and> c \<le> 0x5A then c + 0x20 else c)"

definition is_citro_header :: "jsstring \<Rightarrow> bool" where
  "is_citro_header name \<longleftrightarrow> map ascii_lower (take 8 name) = js ''x-citro-''"

text \<open>The own properties of an object, and the value of one of them.\<close>

fun fields :: "json \<Rightarrow> (jsstring \<times> json) list" where
  "fields (JObj kvs) = kvs"
| "fields _ = []"

definition field :: "json \<Rightarrow> jsstring \<Rightarrow> json option" where
  "field v k = map_of (fields v) k"

text \<open>
  A page and an environment to run \<^verbatim>\<open>callApi\<close> on: the form of the playground page
  with \<^verbatim>\<open>markets\<close> selected and both \<^verbatim>\<open>pre\<close> elements empty; a \<^verbatim>\<open>JSON.parse\<close> that
  knows the default parameters of the page and throws on every other text; a network
  that is down.
\<close>

definition sample_parse :: "jsstring \<Rightarrow> jsstring + json" where
  \<open>sample_parse s =
     (if s = js ''{ "category": "spot" }'' then Inr (JObj [(js ''category'', JStr (js ''spot''))])
      else Inl (js ''SyntaxError: Unexpected end of JSON input''))\<close>

definition offline :: "request \<Rightarrow> jsstring + jsstring" where
  "offline req = Inl (js ''TypeError: Failed to fetch'')"

definition sample_page :: "jsstring \<Rightarrow> jsstring \<Rightarrow> page" where
  "sample_page paramsText reqidValue =
     \<lparr>methodEl = Some (js ''markets''), paramsEl = Some paramsText, reqidEl = Some reqidValue,
      requestPreviewEl = Some [], responseBoxEl = Some []\<rparr>"

text \<open>
  An engine whose \<^verbatim>\<open>JSON.stringify\<close> runs out of stack on values nested deeper than
  \<open>limit\<close>, and deeply nested parameters: the text of \<open>4500\<close> opening brackets followed
  by \<open>4500\<close> closing brackets, which is JSON and parses to arrays nested \<open>4500\<close> deep.
\<close>

fun depth :: "json \<Rightarrow> nat" where
  "depth (JArr vs) = Suc (fold max (map depth vs) 0)"
| "depth (JObj kvs) = Suc (fold max (map (\<lambda>kv. depth (snd kv)) kvs) 0)"
| "depth _ = 0"

definition exhausted_beyond :: "nat \<Rightarrow> jsstring \<Rightarrow> json \<Rightarrow> bool" where
  "exhausted_beyond limit gap v \<longleftrightarrow> limit < depth v"

fun nested_arrays :: "nat \<Rightarrow> json" where
  "nested_arrays 0 = JArr []"
| "nested_arrays (Suc n) = JArr [nested_arrays n]"

definition deep_text :: jsstring where
  "deep_text = replicate 4500 0x5B @ replicate 4500 0x5D"

definition deep_parse :: "jsstring \<Rightarrow> jsstring + json" where
  "deep_parse s =
     (if s = deep_text then Inr (nested_arrays 4499)
      else Inl (js ''SyntaxError: Unexpected end of JSON input''))"

section \<open>Decimal values\<close>

text \<open>
  Modelled from the spec: the Decimal Value, "exact base-10 arithmetic type used for all
  prices/quantities"; the repository holds no implementation of it. \<open>Dec c s\<close> is the
  number \<open>c / 10 ^ s\<close>: an integer coefficient and a number of fractional digits.
\<close>

datatype decimal = Dec (coefficient: int) (fraction_digits: nat)

definition dec_val :: "decimal \<Rightarrow> real" where
  "dec_val d = real_of_int (coefficient d) / 10 ^ fraction_digits d"

definition dec_le :: "decimal \<Rightarrow> decimal \<Rightarrow> bool" where
  "dec_le a b \<longleftrightarrow>
     coefficient a * 10 ^ fraction_digits b \<le> coefficient b * 10 ^ fraction_digits a"

definition dec_pos :: "decimal \<Rightarrow> bool" where
  "dec_pos a \<longleftrightarrow> 0 < coefficient a"

definition dec_mul :: "decimal \<Rightarrow> decimal \<Rightarrow> decimal" where
  "dec_mul a b = Dec (coefficient a * coefficient b) (fraction_digits a + fraction_digits b)"

text \<open>\<open>x\<close> is an integer multiple of \<open>t\<close>: both are brought to the same power of ten.\<close>

definition is_multiple_of :: "decimal \<Rightarrow> decimal \<Rightarrow> bool" where
  "is_multiple_of x t \<longleftrightarrow>
     (coefficient x * 10 ^ fraction_digits t) mod (coefficient t * 10 ^ fraction_digits x) = 0"

text \<open>
  \<open>x\<close> has at most \<open>p\<close> fractional digits: \<open>x * 10 ^ p\<close> is an integer, so trailing
  zeros (the \<open>00\<close> of \<open>100.00\<close>) do not count.
\<close>

definition has_at_most_digits :: "decimal \<Rightarrow> nat \<Rightarrow> bool" where
  "has_at_most_digits x p \<longleftrightarrow> (coefficient x * 10 ^ p) mod 10 ^ fraction_digits x = 0"

text \<open>
  Modelled from the spec: the derivation rule
  "amount = floor(total / price, trade_base_precision)". The quotient is cut to \<open>p\<close>
  fractional digits by integer division, which rounds down; there is no quotient when
  the price is not positive.
\<close>

definition derive_amount :: "decimal \<Rightarrow> decimal \<Rightarrow> nat \<Rightarrow> decimal option" where
  "derive_amount tot pr p =
     (if dec_pos pr
      then Some (Dec ((coefficient tot * 10 ^ (p + fraction_digits pr)) div
                      (coefficient pr * 10 ^ fraction_digits tot)) p)
      else None)"

subsection \<open>Decimal strings\<close>

text \<open>
  Modelled from the spec: "All numeric monetary fields are transmitted as decimal
  strings". A decimal string is an optional minus sign, digits, and optionally a point
  followed by digits.
\<close>

definition digit_of_char :: "char \<Rightarrow> nat option" where
  "digit_of_char c =
     (if 48 \<le> (of_char c :: nat) \<and> (of_char c :: nat) \<le> 57 then Some (of_char c - 48) else None)"

fun digits_value :: "nat \<Rightarrow> string \<Rightarrow> nat option" where
  "digits_value acc [] = Some acc"
| "digits_value acc (c # cs) =
     (case digit_of_char c of None \<Rightarrow> None | Some d \<Rightarrow> digits_value (10 * acc + d) cs)"

definition decimal_of_string :: "string \<Rightarrow> decimal option" where
  "decimal_of_string s =
     (let neg = (s \<noteq> [] \<and> hd s = CHR ''-'');
          u = (if neg then tl s else s);
          ip = takeWhile (\<lambda>c. c \<noteq> CHR ''.'') u;
          rest = dropWhile (\<lambda>c. c \<noteq> CHR ''.'') u;
          fp = (case rest of [] \<Rightarrow> [] | _ # f \<Rightarrow> f)
      in if ip = [] \<or> (rest \<noteq> [] \<and> fp = []) then None
         else (case digits_value 0 (ip @ fp) of
                 None \<Rightarrow> None
               | Some n \<Rightarrow> Some (Dec (if neg then - int n else int n) (length fp))))"

text \<open>The character of a decimal digit \<open>d < 10\<close>.\<close>

definition digit_char :: "nat \<Rightarrow> char" where
  "digit_char d = ''0123456789'' ! d"

fun digits_of_nat :: "nat \<Rightarrow> string" where
  "digits_of_nat n =
     (if n < 10 then [digit_char n]
      else digits_of_nat (n div 10) @ [digit_char (n mod 10)])"

definition string_of_decimal :: "decimal \<Rightarrow> string" where
  "string_of_decimal d =
     (let s = fraction_digits d;
          ds = digits_of_nat (nat \<bar>coefficient d\<bar>);
          padded = replicate (Suc s - length ds) (CHR ''0'') @ ds;
          k = length padded - s
      in (if coefficient d < 0 then ''-'' else []) @
         (if s = 0 then padded else take k padded @ ''.'' @ drop k padded))"

section \<open>The Order Validator\<close>

text \<open>
  Modelled from the spec: the Order Validator of section 4.3 and the records it reads
  (section 3). The repository holds no implementation of it; the definitions follow the
  seven checks of the spec in their order.
\<close>

datatype error_kind = invalid_pair | invalid_params | invalid_order_value

datatype order_type = Market | Limit | Stop_limit

datatype side = Buy | Sell

record market_metadata =
  min_order_qty :: decimal
  max_order_qty :: decimal
  min_order_amt :: decimal
  max_order_amt :: decimal
  quote_tick_size :: decimal
  trade_base_precision :: nat
  trade_quote_precision :: nat

record order_request =
  symbol :: string
  action :: side
  otype :: order_type
  amount :: "decimal option"
  total_quote :: "decimal option"
  price :: "decimal option"
  stop_price :: "decimal option"

type_synonym metadata_cache = "string \<rightharpoonup> market_metadata"

definition priced :: "order_request \<Rightarrow> bool" where
  "priced req \<longleftrightarrow> otype req = Limit \<or> otype req = Stop_limit"

text \<open>Check 2: exactly one of amount and total is present.\<close>

definition exactly_one :: "order_request \<Rightarrow> bool" where
  "exactly_one req \<longleftrightarrow> (amount req = None) \<noteq> (total_quote req = None)"

text \<open>Check 3: a limit or stop-limit order has a price, and it is positive.\<close>

definition price_given :: "order_request \<Rightarrow> bool" where
  "price_given req \<longleftrightarrow>
     (if priced req then (case price req of None \<Rightarrow> False | Some p \<Rightarrow> dec_pos p) else True)"

text \<open>Check 4: a stop-limit order has a stop price, and it is positive.\<close>

definition stop_price_given :: "order_request \<Rightarrow> bool" where
  "stop_price_given req \<longleftrightarrow>
     (if otype req = Stop_limit
      then (case stop_price req of None \<Rightarrow> False | Some p \<Rightarrow> dec_pos p) else True)"

text \<open>
  Check 5: the price is a multiple of the tick size and has at most
  \<open>trade_quote_precision\<close> fractional digits. Market orders are not price-validated.
\<close>

definition price_on_tick :: "market_metadata \<Rightarrow> decimal \<Rightarrow> bool" where
  "price_on_tick md p \<longleftrightarrow>
     is_multiple_of p (quote_tick_size md) \<and> has_at_most_digits p (trade_quote_precision md)"

definition price_valid :: "market_metadata \<Rightarrow> order_request \<Rightarrow> bool" where
  "price_valid md req \<longleftrightarrow>
     (if priced req then (case price req of None \<Rightarrow> False | Some p \<Rightarrow> price_on_tick md p)
      else True)"

text \<open>
  The BASE quantity of the order: the amount when it is given, and for a limit order
  that gives a total the amount derived from it. It is unknown to the client otherwise
  (the spec leaves those checks to the server).
\<close>

definition base_quantity :: "market_metadata \<Rightarrow> order_request \<Rightarrow> decimal option" where
  "base_quantity md req =
     (case amount req of
        Some a \<Rightarrow> Some a
      | None \<Rightarrow>
          (case (total_quote req, price req) of
             (Some t, Some p) \<Rightarrow>
               if otype req = Limit then derive_amount t p (trade_base_precision md) else None
           | _ \<Rightarrow> None))"

text \<open>Check 6: the quantity has at most \<open>trade_base_precision\<close> fractional digits.\<close>

definition quantity_precise :: "market_metadata \<Rightarrow> order_request \<Rightarrow> bool" where
  "quantity_precise md req \<longleftrightarrow>
     (case base_quantity md req of
        None \<Rightarrow> True
      | Some q \<Rightarrow> has_at_most_digits q (trade_base_precision md))"

text \<open>
  Check 7: the quantity lies between the two order quantities, and the notional
  (price times quantity, for an order that has a price) between the two order amounts.
\<close>

definition notional :: "market_metadata \<Rightarrow> order_request \<Rightarrow> decimal option" where
  "notional md req =
     (case (base_quantity md req, price req) of
        (Some q, Some p) \<Rightarrow> if priced req then Some (dec_mul p q) else None
      | _ \<Rightarrow> None)"

definition within_limits :: "market_metadata \<Rightarrow> order_request \<Rightarrow> bool" where
  "within_limits md req \<longleftrightarrow>
     (case base_quantity md req of
        None \<Rightarrow> True
      | Some q \<Rightarrow> dec_le (min_order_qty md) q \<and> dec_le q (max_order_qty md)) \<and>
     (case notional md req of
        None \<Rightarrow> True
      | Some n \<Rightarrow> dec_le (min_order_amt md) n \<and> dec_le n (max_order_amt md))"

text \<open>
  The number of the first of the checks 2 to 7 that fails, in the order of the spec,
  for a symbol whose metadata is \<open>md\<close>.
\<close>

definition failed_check :: "market_metadata \<Rightarrow> order_request \<Rightarrow> nat option" where
  "failed_check md req =
     (if \<not> exactly_one req then Some 2
      else if \<not> price_given req then Some 3
      else if \<not> stop_price_given req then Some 4
      else if \<not> price_valid md req then Some 5
      else if \<not> quantity_precise md req then Some 6
      else if \<not> within_limits md req then Some 7
      else None)"

text \<open>Check 1 comes first: the symbol is known in the cache.\<close>

definition first_failed :: "metadata_cache \<Rightarrow> order_request \<Rightarrow> nat option" where
  "first_failed cache req =
     (case cache (symbol req) of None \<Rightarrow> Some 1 | Some md \<Rightarrow> failed_check md req)"

text \<open>The error kind the spec gives for each check.\<close>

definition error_of_check :: "nat \<Rightarrow> error_kind" where
  "error_of_check n =
     (if n = 1 then invalid_pair
      else if n = 2 \<or> n = 3 \<or> n = 4 then invalid_params
      else invalid_order_value)"

text \<open>
  The validator: the error of the first failing check, or the BASE quantity of the
  accepted order (when the client knows it).
\<close>

definition validate :: "metadata_cache \<Rightarrow> order_request \<Rightarrow> error_kind + decimal option" where
  "validate cache req =
     (case cache (symbol req) of
        None \<Rightarrow> Inl (error_of_check 1)
      | Some md \<Rightarrow>
          (case failed_check md req of
             Some n \<Rightarrow> Inl (error_of_check n)
           | None \<Rightarrow> Inr (base_quantity md req)))"

text \<open>The metadata of \<^verbatim>\<open>BTC/USDT\<close> in the example response of the \<^verbatim>\<open>markets\<close> method.\<close>

definition btc_usdt :: market_metadata where
  "btc_usdt =
     \<lparr>min_order_qty = Dec 48 6, max_order_qty = Dec 7173956243 8,
      min_order_amt = Dec 1 0, max_order_amt = Dec 4000000 0,
      quote_tick_size = Dec 1 2, trade_base_precision = 6, trade_quote_precision = 6\<rparr>"

definition example_cache :: metadata_cache where
  "example_cache = [''BTC/USDT'' \<mapsto> btc_usdt]"

section \<open>Properties of the playground\<close>

lemma dropWhile_all_Nil: "(\<forall>x\<in>set (dropWhile P s). P x) \<Longrightarrow> dropWhile P s = []"
  using hd_dropWhile [of P s] by (cases "dropWhile P s") auto

lemma trim_empty_iff: "trim s = [] \<longleftrightarrow> (\<forall>c\<in>set s. is_ws c)"
proof
  assume "trim s = []"
  then have "\<forall>x\<in>set (dropWhile is_ws s). is_ws x"
    by (simp add: trim_def dropWhile_eq_Nil_conv)
  then have "dropWhile is_ws s = []" by (rule dropWhile_all_Nil)
  then show "\<forall>c\<in>set s. is_ws c" by (simp add: dropWhile_eq_Nil_conv)
next
  assume "\<forall>c\<in>set s. is_ws c"
  then have "dropWhile is_ws s = []" by (simp add: dropWhile_eq_Nil_conv)
  then show "trim s = []" by (simp only: trim_def rev.simps dropWhile.simps)
qed

lemma callApi_present:
  assumes "methodEl pg = Some method" "paramsEl pg = Some paramsText"
    "reqidEl pg = Some reqidValue" "requestPreviewEl pg = Some pv" "responseBoxEl pg = Some rb"
  shows "callApi JSON_parse exhausted fetch pg =
     (let reqid = trim reqidValue in
          (case (if paramsText \<noteq> [] then JSON_parse paramsText else Inr (JObj [])) of
             Inl e \<Rightarrow>
               (pg\<lparr>responseBoxEl := Some (js ''Params JSON parse error:'' @ [0x0A] @ e)\<rparr>, [])
           | Inr paramsObj \<Rightarrow>
               (case JSON_stringify exhausted [] (bodyObj method paramsObj reqid) of
                  None \<Rightarrow> (pg, [])
                | Some bodyStr \<Rightarrow>
                    let pg1 = pg\<lparr>requestPreviewEl := Some bodyStr\<rparr>;
                        req = fetch_request bodyStr
                    in (case fetch req of
                          Inr text \<Rightarrow>
                            (case JSON_parse text of
                               Inr json \<Rightarrow>
                                 (case JSON_stringify exhausted (js ''  '') json of
                                    Some pretty \<Rightarrow> (pg1\<lparr>responseBoxEl := Some pretty\<rparr>, [req])
                                  | None \<Rightarrow> (pg1\<lparr>responseBoxEl := Some text\<rparr>, [req]))
                             | Inl _ \<Rightarrow> (pg1\<lparr>responseBoxEl := Some text\<rparr>, [req]))
                        | Inl err \<Rightarrow>
                            (pg1\<lparr>responseBoxEl := Some (js ''Request failed:'' @ [0x0A] @ err)\<rparr>,
                             [req])))))"
  using assms by (simp add: callApi_def)

lemma callApi_sent_cases:
  "snd (callApi JSON_parse exhausted fetch pg) = [] \<or>
   (\<exists>bodyStr. snd (callApi JSON_parse exhausted fetch pg) = [fetch_request bodyStr])"
  by (auto simp: callApi_def Let_def split: option.splits sum.splits)

text \<open>The two ways on after the parameters are there: the body is built, or the throw.\<close>

lemma callApi_ok:
  assumes "methodEl pg = Some method" "paramsEl pg = Some paramsText"
    "reqidEl pg = Some reqidValue" "requestPreviewEl pg = Some pv" "responseBoxEl pg = Some rb"
    and "paramsText \<noteq> [] \<Longrightarrow> JSON_parse paramsText = Inr paramsObj"
    and "paramsText = [] \<Longrightarrow> paramsObj = JObj []"
    and "\<not> exhausted [] (bodyObj method paramsObj (trim reqidValue))"
  shows "snd (callApi JSON_parse exhausted fetch pg) =
           [fetch_request (serialize [] [] (bodyObj method paramsObj (trim reqidValue)))]"
    and "requestPreviewEl (fst (callApi JSON_parse exhausted fetch pg)) =
           Some (serialize [] [] (bodyObj method paramsObj (trim reqidValue)))"
  using assms(6-8) unfolding callApi_present [OF assms(1-5)]
  by (cases "paramsText = []"; simp add: Let_def JSON_stringify_def split: sum.splits)+

lemma callApi_thrown:
  assumes "methodEl pg = Some selected" "paramsEl pg = Some paramsText"
    "reqidEl pg = Some reqidValue" "requestPreviewEl pg = Some pv" "responseBoxEl pg = Some rb"
    and "paramsText \<noteq> [] \<Longrightarrow> JSON_parse paramsText = Inr paramsObj"
    and "paramsText = [] \<Longrightarrow> paramsObj = JObj []"
    and "exhausted [] (bodyObj selected paramsObj (trim reqidValue))"
  shows "callApi JSON_parse exhausted fetch pg = (pg, [])"
  using assms(6-8) unfolding callApi_present [OF assms(1-5)]
  by (cases "paramsText = []") (simp_all add: Let_def JSON_stringify_def)

lemma js_eq_Nil [simp]: "js s = [] \<longleftrightarrow> s = []"
  by (simp add: js_def)

lemma serialize_bodyObj: \<open>serialize [] [] (bodyObj m p r) =
   js ''{"jsonrpc":"2.0","method":'' @ quote m @ js '',"params":'' @ serialize [] [] p @
   (if r = [] then [] else js '',"id":'' @ quote r) @ js ''}''\<close>
  by (simp add: bodyObj_def quote_def js_def is_lead_def is_trail_def quote_unit_def)

lemma depth_nested_arrays: "depth (nested_arrays n) = Suc n"
  by (induction n) simp_all

lemma depth_bodyObj: "depth p < depth (bodyObj m p r)"
  by (simp add: bodyObj_def)

text \<open>
  Parameters that parse as JSON and for which no request is sent: on the text of
  \<open>4500\<close> nested arrays, in an engine whose \<^verbatim>\<open>JSON.stringify\<close> runs out of stack beyond
  \<open>4000\<close> levels, \<^verbatim>\<open>callApi\<close> leaves the page as it was and calls \<^verbatim>\<open>fetch\<close> not once.
\<close>

theorem deep_params_send_nothing:
  "deep_parse deep_text = Inr (nested_arrays 4499) \<and>
   callApi deep_parse (exhausted_beyond 4000) offline (sample_page deep_text (js ''1'')) =
     (sample_page deep_text (js ''1''), []) \<and>
   snd (callApi deep_parse (exhausted_beyond 4000) offline (sample_page deep_text (js ''1''))) = []"
proof -
  have p: "deep_parse deep_text = Inr (nested_arrays 4499)"
    by (simp add: deep_parse_def)
  have n: "deep_text \<noteq> []"
    by (simp add: deep_text_def)
  have "depth (nested_arrays 4499) = Suc 4499" by (rule depth_nested_arrays)
  with depth_bodyObj [of "nested_arrays 4499" "js ''markets''" "trim (js ''1'')"]
  have "4000 < depth (bodyObj (js ''markets'') (nested_arrays 4499) (trim (js ''1'')))"
    by simp
  then have e: "exhausted_beyond 4000 []
      (bodyObj (js ''markets'') (nested_arrays 4499) (trim (js ''1'')))"
    by (simp add: exhausted_beyond_def)
  have "callApi deep_parse (exhausted_beyond 4000) offline (sample_page deep_text (js ''1'')) =
     (sample_page deep_text (js ''1''), [])"
    by (rule callApi_thrown [where paramsText = deep_text and reqidValue = "js ''1''" and
          paramsObj = "nested_arrays 4499" and selected = "js ''markets''"])
       (simp_all add: sample_page_def p e n)
  with p show ?thesis by simp
qed

text \<open>
  C5 (amended). When the five elements are on the page, the text of the parameters is
  not empty and parses as JSON, and \<^verbatim>\<open>JSON.stringify\<close> of the request object returns,
  \<^verbatim>\<open>callApi\<close> calls \<^verbatim>\<open>fetch\<close> exactly once, with the URL
  \<^verbatim>\<open>https://api.citronus.com/public/v1/jsonrpc\<close>, the method POST and a body that is the
  serialization of the object with \<^verbatim>\<open>jsonrpc\<close> = "2.0", the selected method and the
  parsed parameters, followed by \<^verbatim>\<open>id\<close> when the trimmed request id is not empty; the
  request preview holds that same string. The last conjunct spells the string out.
\<close>

theorem callApi_posts_body:
  assumes "methodEl pg = Some method" and "paramsEl pg = Some paramsText"
    and "reqidEl pg = Some reqidValue" and "requestPreviewEl pg = Some preview"
    and "responseBoxEl pg = Some response"
    and "paramsText \<noteq> []" and "JSON_parse paramsText = Inr paramsObj"
    and "\<not> exhausted []
           (JObj ([(js ''jsonrpc'', JStr (js ''2.0'')), (js ''method'', JStr method),
                   (js ''params'', paramsObj)] @
                  (if trim reqidValue \<noteq> [] then [(js ''id'', JStr (trim reqidValue))]
                   else [])))"
  shows \<open>snd (callApi JSON_parse exhausted fetch pg) =
           [\<lparr>url = js ''https://api.citronus.com/public/v1/jsonrpc'',
             http_method = js ''POST'',
             headers = [(js ''Content-Type'', js ''application/json'')],
             body = serialize [] []
               (JObj ([(js ''jsonrpc'', JStr (js ''2.0'')), (js ''method'', JStr method),
                       (js ''params'', paramsObj)] @
                      (if trim reqidValue \<noteq> [] then [(js ''id'', JStr (trim reqidValue))]
                       else [])))\<rparr>] \<and>
         requestPreviewEl (fst (callApi JSON_parse exhausted fetch pg)) =
           Some (serialize [] []
               (JObj ([(js ''jsonrpc'', JStr (js ''2.0'')), (js ''method'', JStr method),
                       (js ''params'', paramsObj)] @
                      (if trim reqidValue \<noteq> [] then [(js ''id'', JStr (trim reqidValue))]
                       else [])))) \<and>
         map body (snd (callApi JSON_parse exhausted fetch pg)) =
           [js ''{"jsonrpc":"2.0","method":'' @ quote method @ js '',"params":'' @
            serialize [] [] paramsObj @
            (if trim reqidValue = [] then [] else js '',"id":'' @ quote (trim reqidValue)) @
            js ''}'']\<close>
proof -
  have obj: "JObj ([(js ''jsonrpc'', JStr (js ''2.0'')), (js ''method'', JStr method),
                       (js ''params'', paramsObj)] @
                      (if trim reqidValue \<noteq> [] then [(js ''id'', JStr (trim reqidValue))]
                       else [])) = bodyObj method paramsObj (trim reqidValue)"
    by (simp only: bodyObj_def)
  have ne: "\<not> exhausted [] (bodyObj method paramsObj (trim reqidValue))"
    using assms(8) unfolding obj .
  have sent: "snd (callApi JSON_parse exhausted fetch pg) =
      [fetch_request (serialize [] [] (bodyObj method paramsObj (trim reqidValue)))]"
    by (rule callApi_ok(1) [where paramsText = paramsText])
       (use assms ne in simp_all)
  have shown: "requestPreviewEl (fst (callApi JSON_parse exhausted fetch pg)) =
      Some (serialize [] [] (bodyObj method paramsObj (trim reqidValue)))"
    by (rule callApi_ok(2) [where paramsText = paramsText])
       (use assms ne in simp_all)
  show ?thesis
    unfolding obj sent shown
    by (simp add: serialize_bodyObj fetch_request_def)
qed

text \<open>
  The default parameters of the page with the request id \<open>" 1 "\<close>: one request, whose
  body is also the preview.
\<close>

theorem callApi_posts_body_witness:
  \<open>snd (callApi sample_parse (exhausted_beyond 4000) offline
          (sample_page (js ''{ "category": "spot" }'') (js '' 1 ''))) =
     [\<lparr>url = js ''https://api.citronus.com/public/v1/jsonrpc'',
       http_method = js ''POST'',
       headers = [(js ''Content-Type'', js ''application/json'')],
       body = js ''{"jsonrpc":"2.0","method":"markets","params":{"category":"spot"},"id":"1"}''\<rparr>] \<and>
   requestPreviewEl (fst (callApi sample_parse (exhausted_beyond 4000) offline
       (sample_page (js ''{ "category": "spot" }'') (js '' 1 '')))) =
     Some (js ''{"jsonrpc":"2.0","method":"markets","params":{"category":"spot"},"id":"1"}'')\<close>
proof -
  have t: "trim (js '' 1 '') = js ''1''"
    by (simp add: trim_def js_def is_ws_def)
  have s: \<open>serialize [] [] (bodyObj (js ''markets'') (JObj [(js ''category'', JStr (js ''spot''))]) (js ''1''))
     = js ''{"jsonrpc":"2.0","method":"markets","params":{"category":"spot"},"id":"1"}''\<close>
    by (simp add: bodyObj_def quote_def js_def is_lead_def is_trail_def quote_unit_def)
  have h1: "methodEl (sample_page (js ''{ \"category\": \"spot\" }'') (js '' 1 '')) = Some (js ''markets'')"
    and h2: "paramsEl (sample_page (js ''{ \"category\": \"spot\" }'') (js '' 1 '')) = Some (js ''{ \"category\": \"spot\" }'')"
    and h3: "reqidEl (sample_page (js ''{ \"category\": \"spot\" }'') (js '' 1 '')) = Some (js '' 1 '')"
    and h4: "requestPreviewEl (sample_page (js ''{ \"category\": \"spot\" }'') (js '' 1 '')) = Some []"
    and h5: "responseBoxEl (sample_page (js ''{ \"category\": \"spot\" }'') (js '' 1 '')) = Some []"
    by (simp_all add: sample_page_def)
  have h6: "js ''{ \"category\": \"spot\" }'' \<noteq> []" by simp
  have h7: "sample_parse (js ''{ \"category\": \"spot\" }'') = Inr (JObj [(js ''category'', JStr (js ''spot''))])"
    by (simp add: sample_parse_def)
  have h8: "\<not> exhausted_beyond 4000 []
           (JObj ([(js ''jsonrpc'', JStr (js ''2.0'')), (js ''method'', JStr (js ''markets'')),
                   (js ''params'', JObj [(js ''category'', JStr (js ''spot''))])] @
                  (if trim (js '' 1 '') \<noteq> [] then [(js ''id'', JStr (trim (js '' 1 '')))]
                   else [])))"
    by (simp add: exhausted_beyond_def)
  show ?thesis
    using callApi_posts_body [where JSON_parse = sample_parse and fetch = offline
        and exhausted = "exhausted_beyond 4000", OF h1 h2 h3 h4 h5 h6 h7 h8]
    unfolding t
    by (simp add: s [unfolded bodyObj_def, simplified])
qed

text \<open>
  C8. When the text of the parameters is not empty and \<^verbatim>\<open>JSON.parse\<close> throws on it,
  \<^verbatim>\<open>callApi\<close> writes \<^verbatim>\<open>"Params JSON parse error:\n"\<close> followed by the error into the
  response box and returns: no \<^verbatim>\<open>fetch\<close> call is made and the request preview (like
  every other element) is left as it was.
\<close>

theorem callApi_parse_error:
  assumes "methodEl pg = Some method" and "paramsEl pg = Some paramsText"
    and "reqidEl pg = Some reqidValue" and "requestPreviewEl pg = Some preview"
    and "responseBoxEl pg = Some response"
    and "paramsText \<noteq> []" and "JSON_parse paramsText = Inl e"
  shows "callApi JSON_parse exhausted fetch pg =
           (pg\<lparr>responseBoxEl := Some (js ''Params JSON parse error:'' @ [0x0A] @ e)\<rparr>, []) \<and>
         snd (callApi JSON_parse exhausted fetch pg) = [] \<and>
         requestPreviewEl (fst (callApi JSON_parse exhausted fetch pg)) = requestPreviewEl pg \<and>
         responseBoxEl (fst (callApi JSON_parse exhausted fetch pg)) =
           Some (js ''Params JSON parse error:'' @ [0x0A] @ e)"
  using assms(6,7) unfolding callApi_present [OF assms(1-5)] by simp

text \<open>The parameters \<open>{\<close>, which are not JSON.\<close>

theorem callApi_parse_error_witness:
  "callApi sample_parse (exhausted_beyond 4000) offline (sample_page (js ''{'') (js ''1'')) =
     (\<lparr>methodEl = Some (js ''markets''), paramsEl = Some (js ''{''), reqidEl = Some (js ''1''),
       requestPreviewEl = Some [],
       responseBoxEl = Some (js ''Params JSON parse error:'' @ [0x0A] @
                             js ''SyntaxError: Unexpected end of JSON input'')\<rparr>, [])"
proof -
  have h1: "methodEl (sample_page (js ''{'') (js ''1'')) = Some (js ''markets'')"
    and h2: "paramsEl (sample_page (js ''{'') (js ''1'')) = Some (js ''{'')"
    and h3: "reqidEl (sample_page (js ''{'') (js ''1'')) = Some (js ''1'')"
    and h4: "requestPreviewEl (sample_page (js ''{'') (js ''1'')) = Some []"
    and h5: "responseBoxEl (sample_page (js ''{'') (js ''1'')) = Some []"
    by (simp_all add: sample_page_def)
  have h6: "js ''{'' \<noteq> []" by simp
  have h7: "sample_parse (js ''{'') = Inl (js ''SyntaxError: Unexpected end of JSON input'')"
    by (simp add: sample_parse_def js_def)
  show ?thesis
    using callApi_parse_error [where JSON_parse = sample_parse and fetch = offline
        and exhausted = "exhausted_beyond 4000", OF h1 h2 h3 h4 h5 h6 h7]
    by (simp add: sample_page_def)
qed

text \<open>
  C9. Take the request object \<^verbatim>\<open>callApi\<close> builds from the form, with the empty object
  for an empty text of parameters. The object carries the \<^verbatim>\<open>id\<close> property exactly when
  the request id is not empty after \<^verbatim>\<open>trim\<close>, that is when it holds a code unit that is
  not white space; an id of white space only gives a body without \<^verbatim>\<open>id\<close>. An empty text
  of parameters gives \<^verbatim>\<open>"params":{}\<close>: the property is present and its value is the
  empty object. The body of the request that is sent is the serialization of that
  object; when \<^verbatim>\<open>JSON.stringify\<close> throws on it, no request is sent at all.
\<close>

theorem callApi_id_field:
  assumes "methodEl pg = Some method" and "paramsEl pg = Some paramsText"
    and "reqidEl pg = Some reqidValue" and "requestPreviewEl pg = Some preview"
    and "responseBoxEl pg = Some response"
    and "paramsText = [] \<or> JSON_parse paramsText = Inr parsed"
  shows \<open>let paramsObj = (if paramsText = [] then JObj [] else parsed);
             obj = bodyObj method paramsObj (trim reqidValue)
         in map body (snd (callApi JSON_parse exhausted fetch pg)) =
              (if exhausted [] obj then [] else [serialize [] [] obj]) \<and>
            field obj (js ''id'') =
              (if trim reqidValue = [] then None else Some (JStr (trim reqidValue))) \<and>
            (field obj (js ''id'') \<noteq> None \<longleftrightarrow> (\<exists>c \<in> set reqidValue. \<not> is_ws c)) \<and>
            field obj (js ''params'') = Some paramsObj \<and>
            serialize [] [] obj =
              js ''{"jsonrpc":"2.0","method":'' @ quote method @ js '',"params":'' @
              (if paramsText = [] then js ''{}'' else serialize [] [] parsed) @
              (if \<exists>c \<in> set reqidValue. \<not> is_ws c
               then js '',"id":'' @ quote (trim reqidValue) else []) @
              js ''}''\<close>
proof -
  define paramsObj where "paramsObj = (if paramsText = [] then JObj [] else parsed)"
  have p1: "paramsText \<noteq> [] \<Longrightarrow> JSON_parse paramsText = Inr paramsObj"
    and p2: "paramsText = [] \<Longrightarrow> paramsObj = JObj []"
    using assms(6) by (simp_all add: paramsObj_def)
  have bd: "map body (snd (callApi JSON_parse exhausted fetch pg)) =
      (if exhausted [] (bodyObj method paramsObj (trim reqidValue)) then []
       else [serialize [] [] (bodyObj method paramsObj (trim reqidValue))])"
  proof (cases "exhausted [] (bodyObj method paramsObj (trim reqidValue))")
    case True
    have "callApi JSON_parse exhausted fetch pg = (pg, [])"
      by (rule callApi_thrown [where paramsText = paramsText and reqidValue = reqidValue and
            paramsObj = paramsObj and selected = "method"])
         (use assms(1-5) p1 p2 True in simp_all)
    with True show ?thesis by simp
  next
    case False
    have "snd (callApi JSON_parse exhausted fetch pg) =
        [fetch_request (serialize [] [] (bodyObj method paramsObj (trim reqidValue)))]"
      by (rule callApi_ok(1) [where paramsText = paramsText])
         (use assms(1-5) p1 p2 False in simp_all)
    with False show ?thesis by (simp add: fetch_request_def)
  qed
  have ws: "(trim reqidValue = []) = (\<not> (\<exists>c \<in> set reqidValue. \<not> is_ws c))"
    by (simp add: trim_empty_iff)
  have id: "field (bodyObj method paramsObj (trim reqidValue)) (js ''id'') =
      (if trim reqidValue = [] then None else Some (JStr (trim reqidValue)))"
    by (simp add: field_def bodyObj_def js_def)
  have pa: "field (bodyObj method paramsObj (trim reqidValue)) (js ''params'') = Some paramsObj"
    by (simp add: field_def bodyObj_def js_def)
  have str: \<open>serialize [] [] (bodyObj method paramsObj (trim reqidValue)) =
              js ''{"jsonrpc":"2.0","method":'' @ quote method @ js '',"params":'' @
              (if paramsText = [] then js ''{}'' else serialize [] [] parsed) @
              (if \<exists>c \<in> set reqidValue. \<not> is_ws c
               then js '',"id":'' @ quote (trim reqidValue) else []) @
              js ''}''\<close>
    unfolding serialize_bodyObj ws by (simp add: paramsObj_def)
  have idn: "field (bodyObj method paramsObj (trim reqidValue)) (js ''id'') \<noteq> None \<longleftrightarrow>
      (\<exists>c \<in> set reqidValue. \<not> is_ws c)"
    unfolding id using ws by simp
  show ?thesis
    unfolding Let_def paramsObj_def [symmetric]
    using bd id idn pa str by blast
qed

text \<open>An empty text of parameters and a request id of two spaces.\<close>

theorem callApi_id_field_witness:
  \<open>map body (snd (callApi sample_parse (exhausted_beyond 4000) offline
      (sample_page [] (js ''  '')))) =
     [js ''{"jsonrpc":"2.0","method":"markets","params":{}}'']\<close>
proof -
  have h1: "methodEl (sample_page [] (js ''  '')) = Some (js ''markets'')"
    and h2: "paramsEl (sample_page [] (js ''  '')) = Some []"
    and h3: "reqidEl (sample_page [] (js ''  '')) = Some (js ''  '')"
    and h4: "requestPreviewEl (sample_page [] (js ''  '')) = Some []"
    and h5: "responseBoxEl (sample_page [] (js ''  '')) = Some []"
    by (simp_all add: sample_page_def)
  have h6: "[] = ([] :: jsstring) \<or> sample_parse [] = Inr JNull" by simp
  have ws: "\<not> (\<exists>c \<in> set (js ''  ''). \<not> is_ws c)"
    by (simp add: js_def is_ws_def)
  have ne: "\<not> exhausted_beyond 4000 [] (bodyObj (js ''markets'') (JObj []) (trim (js ''  '')))"
    by (simp add: exhausted_beyond_def bodyObj_def)
  have q: \<open>js ''{"jsonrpc":"2.0","method":'' @ quote (js ''markets'') @ js '',"params":'' @
      js ''{}'' @ js ''}'' = js ''{"jsonrpc":"2.0","method":"markets","params":{}}''\<close>
    by (simp add: js_def quote_def quote_unit_def is_lead_def is_trail_def)
  show ?thesis
    using callApi_id_field [where JSON_parse = sample_parse and fetch = offline
        and exhausted = "exhausted_beyond 4000", OF h1 h2 h3 h4 h5 h6]
    unfolding Let_def using ws q ne by simp
qed

text \<open>
  C10. Every \<^verbatim>\<open>fetch\<close> call of \<^verbatim>\<open>callApi\<close>, on every page and with every outcome of
  \<^verbatim>\<open>JSON.parse\<close>, of \<^verbatim>\<open>JSON.stringify\<close> and of the network, is given exactly one header,
  \<^verbatim>\<open>Content-Type: application/json\<close>, and so no \<^verbatim>\<open>X-CITRO-*\<close> header: neither an API
  key nor a signature. (The headers a browser adds by itself are outside the function.)
\<close>

theorem callApi_headers:
  "\<forall>r \<in> set (snd (callApi JSON_parse exhausted fetch pg)).
     headers r = [(js ''Content-Type'', js ''application/json'')] \<and>
     (\<forall>h \<in> set (headers r). \<not> is_citro_header (fst h))"
proof
  fix r
  assume "r \<in> set (snd (callApi JSON_parse exhausted fetch pg))"
  with callApi_sent_cases [of JSON_parse exhausted fetch pg]
  obtain b where r: "r = fetch_request b" by auto
  have nc: "\<not> is_citro_header (js ''Content-Type'')"
    by (simp add: is_citro_header_def js_def ascii_lower_def)
  have hs: "headers r = [(js ''Content-Type'', js ''application/json'')]"
    by (simp add: r fetch_request_def)
  show "headers r = [(js ''Content-Type'', js ''application/json'')] \<and>
        (\<forall>h \<in> set (headers r). \<not> is_citro_header (fst h))"
    unfolding hs using nc by simp
qed

text \<open>A run that sends a request, and the headers of that request.\<close>

theorem callApi_headers_witness:
  "map headers (snd (callApi sample_parse (exhausted_beyond 4000) offline
      (sample_page [] (js ''1'')))) =
     [[(js ''Content-Type'', js ''application/json'')]]"
proof -
  have ne: "\<not> exhausted_beyond 4000 [] (bodyObj (js ''markets'') (JObj []) (trim (js ''1'')))"
    by (simp add: exhausted_beyond_def bodyObj_def)
  have "snd (callApi sample_parse (exhausted_beyond 4000) offline (sample_page [] (js ''1''))) =
      [fetch_request (serialize [] [] (bodyObj (js ''markets'') (JObj []) (trim (js ''1''))))]"
    by (rule callApi_ok(1) [where paramsText = "[]"])
       (simp_all add: sample_page_def ne)
  then show ?thesis
    using callApi_headers [of sample_parse "exhausted_beyond 4000" offline
        "sample_page [] (js ''1'')"] by simp
qed

section \<open>Properties of the Order Validator\<close>

lemmas validator_defs =
  validate_def failed_check_def error_of_check_def exactly_one_def price_given_def
  stop_price_given_def price_valid_def price_on_tick_def quantity_precise_def within_limits_def
  notional_def base_quantity_def derive_amount_def priced_def dec_pos_def dec_le_def dec_mul_def
  is_multiple_of_def has_at_most_digits_def example_cache_def btc_usdt_def

text \<open>
  What the two predicates on decimals mean for the numbers they stand for, and the
  derived amount as a floor.
\<close>

lemma is_multiple_of_iff:
  assumes "coefficient t \<noteq> 0"
  shows "is_multiple_of x t \<longleftrightarrow> (\<exists>k::int. dec_val x = of_int k * dec_val t)"
proof -
  let ?a = "coefficient x * 10 ^ fraction_digits t"
  let ?b = "coefficient t * 10 ^ fraction_digits x"
  have "is_multiple_of x t \<longleftrightarrow> (\<exists>k. ?a = k * ?b)"
    by (auto simp: is_multiple_of_def mod_eq_0_iff_dvd dvd_def mult.commute)
  also have "\<dots> \<longleftrightarrow> (\<exists>k. real_of_int ?a = real_of_int (k * ?b))"
    by (simp only: of_int_eq_iff)
  also have "\<dots> \<longleftrightarrow> (\<exists>k::int. dec_val x = of_int k * dec_val t)"
    by (simp add: dec_val_def field_simps)
  finally show ?thesis .
qed

lemma has_at_most_digits_iff:
  "has_at_most_digits x p \<longleftrightarrow> (\<exists>k::int. dec_val x = of_int k / 10 ^ p)"
proof -
  let ?a = "coefficient x * 10 ^ p"
  let ?b = "(10::int) ^ fraction_digits x"
  have "has_at_most_digits x p \<longleftrightarrow> (\<exists>k. ?a = k * ?b)"
    by (auto simp: has_at_most_digits_def mod_eq_0_iff_dvd dvd_def mult.commute)
  also have "\<dots> \<longleftrightarrow> (\<exists>k. real_of_int ?a = real_of_int (k * ?b))"
    by (simp only: of_int_eq_iff)
  also have "\<dots> \<longleftrightarrow> (\<exists>k::int. dec_val x = of_int k / 10 ^ p)"
    by (simp add: dec_val_def field_simps)
  finally show ?thesis .
qed

lemma derive_floor:
  assumes "derive_amount t pr p = Some d"
  shows "fraction_digits d = p"
    and "coefficient d = \<lfloor>dec_val t / dec_val pr * 10 ^ p\<rfloor>"
proof -
  from assms have pos: "0 < coefficient pr"
    and d: "d = Dec ((coefficient t * 10 ^ (p + fraction_digits pr)) div
                      (coefficient pr * 10 ^ fraction_digits t)) p"
    by (auto simp: derive_amount_def dec_pos_def split: if_splits)
  show "fraction_digits d = p" by (simp add: d)
  have "dec_val t / dec_val pr * 10 ^ p =
      real_of_int (coefficient t * 10 ^ (p + fraction_digits pr)) /
      real_of_int (coefficient pr * 10 ^ fraction_digits t)"
    using pos by (simp add: dec_val_def power_add field_simps)
  then show "coefficient d = \<lfloor>dec_val t / dec_val pr * 10 ^ p\<rfloor>"
    by (simp only: d decimal.sel floor_divide_of_int_eq)
qed

lemma derive_never_up:
  assumes "derive_amount t pr p = Some d"
  shows "dec_val d \<le> dec_val t / dec_val pr"
    and "dec_val t / dec_val pr < dec_val d + 1 / 10 ^ p"
    and "0 \<le> coefficient t \<Longrightarrow> 0 \<le> dec_val d"
proof -
  let ?q = "dec_val t / dec_val pr"
  have c: "real_of_int (coefficient d) = real_of_int \<lfloor>?q * 10 ^ p\<rfloor>"
    and s: "fraction_digits d = p"
    using derive_floor [OF assms] by simp_all
  have v: "dec_val d = real_of_int \<lfloor>?q * 10 ^ p\<rfloor> / 10 ^ p"
    by (simp add: dec_val_def c s)
  have "real_of_int \<lfloor>?q * 10 ^ p\<rfloor> \<le> ?q * 10 ^ p" by (rule of_int_floor_le)
  then show "dec_val d \<le> ?q" unfolding v by (simp add: field_simps)
  have "?q * 10 ^ p < real_of_int \<lfloor>?q * 10 ^ p\<rfloor> + 1" by linarith
  then show "?q < dec_val d + 1 / 10 ^ p" unfolding v by (simp add: field_simps)
  from assms have pos: "0 < coefficient pr"
    by (auto simp: derive_amount_def dec_pos_def split: if_splits)
  assume "0 \<le> coefficient t"
  with pos have "0 \<le> ?q * 10 ^ p" by (simp add: dec_val_def)
  then have "0 \<le> \<lfloor>?q * 10 ^ p\<rfloor>" by simp
  then show "0 \<le> dec_val d" unfolding v by simp
qed

lemma validate_Inr:
  "validate cache req = Inr q \<longleftrightarrow>
     (\<exists>md. cache (symbol req) = Some md \<and> failed_check md req = None \<and> q = base_quantity md req)"
  by (auto simp: validate_def split: option.splits)

lemma failed_check_None:
  "failed_check md req = None \<longleftrightarrow>
     exactly_one req \<and> price_given req \<and> stop_price_given req \<and> price_valid md req \<and>
     quantity_precise md req \<and> within_limits md req"
  by (simp add: failed_check_def)

lemma validate_unknown: "cache (symbol req) = None \<Longrightarrow> validate cache req = Inl invalid_pair"
  by (simp add: validate_def error_of_check_def)

lemma validate_first_failed:
  "validate cache req =
     (case first_failed cache req of
        Some n \<Rightarrow> Inl (error_of_check n)
      | None \<Rightarrow> Inr (base_quantity (the (cache (symbol req))) req))"
  by (simp add: validate_def first_failed_def split: option.splits)

lemma failed_check_range: "failed_check md req = Some n \<Longrightarrow> 2 \<le> n \<and> n \<le> 7"
  by (auto simp: failed_check_def split: if_splits)

text \<open>
  C2. For a limit order that gives a total \<open>t\<close> and no amount, at a positive price \<open>pr\<close>
  (check 3), the validator takes as BASE quantity \<open>floor(t / pr, trade_base_precision)\<close>:
  a decimal of \<open>trade_base_precision\<close> fractional digits whose coefficient is the floor
  of the quotient scaled by that power of ten. It is never above the quotient and less
  than one unit of the last digit below it; for a total that is not negative it lies
  between zero and the quotient, so the rounding is toward zero. It is the quantity the
  validator returns when it accepts the order. For the total \<open>500\<close>, the price \<open>65000\<close>
  and six digits the derived amount is \<open>0.007692\<close>.
\<close>

theorem validate_derives_floor:
  assumes "otype req = Limit" and "amount req = None" and "total_quote req = Some t"
    and "price req = Some pr" and "dec_pos pr"
  shows "(\<exists>d. base_quantity md req = Some d \<and>
           fraction_digits d = trade_base_precision md \<and>
           coefficient d = \<lfloor>dec_val t / dec_val pr * 10 ^ trade_base_precision md\<rfloor> \<and>
           dec_val d \<le> dec_val t / dec_val pr \<and>
           dec_val t / dec_val pr < dec_val d + 1 / 10 ^ trade_base_precision md \<and>
           (0 \<le> coefficient t \<longrightarrow> 0 \<le> dec_val d) \<and>
           (\<forall>cache q. cache (symbol req) = Some md \<and> validate cache req = Inr q \<longrightarrow>
              q = Some d)) \<and>
         decimal_of_string ''500'' = Some (Dec 500 0) \<and>
         decimal_of_string ''65000'' = Some (Dec 65000 0) \<and>
         derive_amount (Dec 500 0) (Dec 65000 0) 6 = Some (Dec 7692 6) \<and>
         string_of_decimal (Dec 7692 6) = ''0.007692''"
proof -
  from assms(5) obtain d where d: "derive_amount t pr (trade_base_precision md) = Some d"
    by (simp add: derive_amount_def)
  have bq: "base_quantity md req = Some d"
    using assms(1-4) d by (simp add: base_quantity_def)
  have ret: "q = Some d" if "cache (symbol req) = Some md \<and> validate cache req = Inr q"
    for cache q
    using that bq by (auto simp: validate_Inr)
  have general: "\<exists>d. base_quantity md req = Some d \<and>
           fraction_digits d = trade_base_precision md \<and>
           coefficient d = \<lfloor>dec_val t / dec_val pr * 10 ^ trade_base_precision md\<rfloor> \<and>
           dec_val d \<le> dec_val t / dec_val pr \<and>
           dec_val t / dec_val pr < dec_val d + 1 / 10 ^ trade_base_precision md \<and>
           (0 \<le> coefficient t \<longrightarrow> 0 \<le> dec_val d) \<and>
           (\<forall>cache q. cache (symbol req) = Some md \<and> validate cache req = Inr q \<longrightarrow>
              q = Some d)"
    using bq ret derive_floor [OF d] derive_never_up [OF d] by blast
  have s1: "decimal_of_string ''500'' = Some (Dec 500 0)"
    and s2: "decimal_of_string ''65000'' = Some (Dec 65000 0)"
    by (simp_all add: decimal_of_string_def digit_of_char_def)
  have s3: "derive_amount (Dec 500 0) (Dec 65000 0) 6 = Some (Dec 7692 6)"
    by (simp add: derive_amount_def dec_pos_def)
  have s4: "string_of_decimal (Dec 7692 6) = ''0.007692''"
    by (simp add: string_of_decimal_def digit_char_def numeral_2_eq_2)
  show ?thesis using general s1 s2 s3 s4 by (intro conjI)
qed

text \<open>
  A limit order for the total \<open>500\<close> at the price \<open>65000\<close> on \<^verbatim>\<open>BTC/USDT\<close>: it is
  accepted, with the quantity \<open>0.007692\<close>.
\<close>

theorem validate_derives_floor_witness:
  "validate example_cache
     \<lparr>symbol = ''BTC/USDT'', action = Buy, otype = Limit, amount = None,
      total_quote = decimal_of_string ''500'', price = decimal_of_string ''65000'',
      stop_price = None\<rparr> = Inr (Some (Dec 7692 6)) \<and>
   string_of_decimal (Dec 7692 6) = ''0.007692'' \<and>
   7692 = \<lfloor>dec_val (Dec 500 0) / dec_val (Dec 65000 0) * 10 ^ 6\<rfloor>"
proof -
  let ?req = "\<lparr>symbol = ''BTC/USDT'', action = Buy, otype = Limit, amount = None,
      total_quote = Some (Dec 500 0), price = Some (Dec 65000 0), stop_price = None\<rparr>"
  have t: "decimal_of_string ''500'' = Some (Dec 500 0)"
    and p: "decimal_of_string ''65000'' = Some (Dec 65000 0)"
    by (simp_all add: decimal_of_string_def digit_of_char_def)
  have v: "validate example_cache ?req = Inr (Some (Dec 7692 6))"
    by (simp add: validator_defs)
  have k: "example_cache (symbol ?req) = Some btc_usdt"
    by (simp add: example_cache_def)
  have h1: "otype ?req = Limit" and h2: "amount ?req = None"
    and h3: "total_quote ?req = Some (Dec 500 0)" and h4: "price ?req = Some (Dec 65000 0)"
    by simp_all
  have h5: "dec_pos (Dec 65000 0)" by (simp add: dec_pos_def)
  have b: "trade_base_precision btc_usdt = 6" by (simp add: btc_usdt_def)
  from validate_derives_floor [OF h1 h2 h3 h4 h5, of btc_usdt]
  obtain d where d: "base_quantity btc_usdt ?req = Some d"
    and f: "coefficient d = \<lfloor>dec_val (Dec 500 0) / dec_val (Dec 65000 0) * 10 ^ 6\<rfloor>"
    and r: "\<forall>cache q. cache (symbol ?req) = Some btc_usdt \<and> validate cache ?req = Inr q \<longrightarrow>
              q = Some d"
    and s: "string_of_decimal (Dec 7692 6) = ''0.007692''"
    unfolding b by blast
  from r k v have "Some (Dec 7692 6) = Some d" by blast
  then have "coefficient d = 7692" by auto
  with f v s show ?thesis unfolding t p by simp
qed

text \<open>
  A request that gives both an amount and a total for a symbol the cache does not hold
  is rejected with \<open>invalid_pair\<close>, not with \<open>invalid_params\<close>: check 1 comes first.
\<close>

theorem both_amount_and_total_unknown_symbol:
  "amount \<lparr>symbol = ''ETH/USDT'', action = Buy, otype = Market, amount = Some (Dec 1 1),
      total_quote = Some (Dec 100 0), price = None, stop_price = None\<rparr> \<noteq> None \<and>
   total_quote \<lparr>symbol = ''ETH/USDT'', action = Buy, otype = Market, amount = Some (Dec 1 1),
      total_quote = Some (Dec 100 0), price = None, stop_price = None\<rparr> \<noteq> None \<and>
   validate example_cache
     \<lparr>symbol = ''ETH/USDT'', action = Buy, otype = Market, amount = Some (Dec 1 1),
      total_quote = Some (Dec 100 0), price = None, stop_price = None\<rparr> = Inl invalid_pair \<and>
   validate example_cache
     \<lparr>symbol = ''ETH/USDT'', action = Buy, otype = Market, amount = Some (Dec 1 1),
      total_quote = Some (Dec 100 0), price = None, stop_price = None\<rparr> \<noteq> Inl invalid_params"
  by (simp add: validate_def example_cache_def error_of_check_def)

text \<open>
  C3 (amended). The validator accepts a request only if exactly one of amount and total
  is present. A request that gives both, or neither, is rejected: with \<open>invalid_params\<close>
  when its symbol is known in the cache, and with \<open>invalid_pair\<close> when it is not.
\<close>

theorem validate_exactly_one:
  "(\<forall>q. validate cache req = Inr q \<longrightarrow> (amount req = None) \<noteq> (total_quote req = None)) \<and>
   ((amount req \<noteq> None \<and> total_quote req \<noteq> None) \<or>
    (amount req = None \<and> total_quote req = None) \<longrightarrow>
      (\<exists>e. validate cache req = Inl e) \<and>
      (cache (symbol req) \<noteq> None \<longrightarrow> validate cache req = Inl invalid_params) \<and>
      (cache (symbol req) = None \<longrightarrow> validate cache req = Inl invalid_pair))"
  by (auto simp: validate_def failed_check_def exactly_one_def error_of_check_def
      split: option.splits if_splits)

text \<open>Both and neither, for the known symbol \<^verbatim>\<open>BTC/USDT\<close>.\<close>

theorem validate_exactly_one_witness:
  "validate example_cache
     \<lparr>symbol = ''BTC/USDT'', action = Buy, otype = Market, amount = Some (Dec 1 1),
      total_quote = Some (Dec 100 0), price = None, stop_price = None\<rparr> = Inl invalid_params \<and>
   validate example_cache
     \<lparr>symbol = ''BTC/USDT'', action = Buy, otype = Market, amount = None,
      total_quote = None, price = None, stop_price = None\<rparr> = Inl invalid_params"
  using validate_exactly_one [of example_cache
      "\<lparr>symbol = ''BTC/USDT'', action = Buy, otype = Market, amount = Some (Dec 1 1),
      total_quote = Some (Dec 100 0), price = None, stop_price = None\<rparr>"]
    validate_exactly_one [of example_cache
      "\<lparr>symbol = ''BTC/USDT'', action = Buy, otype = Market, amount = None,
      total_quote = None, price = None, stop_price = None\<rparr>"]
  by (simp add: example_cache_def)

text \<open>
  A limit order on a known symbol whose price \<open>100.005\<close> is off the tick \<open>0.01\<close> and which
  gives both an amount and a total is rejected with \<open>invalid_params\<close>, not with
  \<open>invalid_order_value\<close>: check 2 comes before check 5.
\<close>

theorem off_tick_price_with_both_amount_and_total:
  "decimal_of_string ''100.005'' = Some (Dec 100005 3) \<and>
   \<not> is_multiple_of (Dec 100005 3) (quote_tick_size btc_usdt) \<and>
   validate example_cache
     \<lparr>symbol = ''BTC/USDT'', action = Buy, otype = Limit, amount = Some (Dec 1 1),
      total_quote = Some (Dec 10 0), price = Some (Dec 100005 3), stop_price = None\<rparr>
     = Inl invalid_params \<and>
   validate example_cache
     \<lparr>symbol = ''BTC/USDT'', action = Buy, otype = Limit, amount = Some (Dec 1 1),
      total_quote = Some (Dec 10 0), price = Some (Dec 100005 3), stop_price = None\<rparr>
     \<noteq> Inl invalid_order_value"
proof -
  have "decimal_of_string ''100.005'' = Some (Dec 100005 3)"
    by (simp add: decimal_of_string_def digit_of_char_def)
  then show ?thesis by (simp add: validator_defs)
qed

text \<open>
  C4 (amended). For a limit or stop-limit request the validator accepts only if the
  price is an integer multiple of the tick size of the symbol and has at most
  \<open>trade_quote_precision\<close> fractional digits. A request on a known symbol whose price
  fails this is rejected, with \<open>invalid_order_value\<close> when the checks 2 to 4 pass. With
  the tick size \<open>0.01\<close> the price \<open>100.005\<close> fails the check and \<open>100.00\<close> passes it.
\<close>

theorem validate_price_tick:
  assumes "otype req = Limit \<or> otype req = Stop_limit"
  shows "(\<forall>q. validate cache req = Inr q \<longrightarrow>
            (\<exists>md pr. cache (symbol req) = Some md \<and> price req = Some pr \<and>
               is_multiple_of pr (quote_tick_size md) \<and>
               has_at_most_digits pr (trade_quote_precision md))) \<and>
         (\<forall>md pr. cache (symbol req) = Some md \<and> price req = Some pr \<and>
            \<not> (is_multiple_of pr (quote_tick_size md) \<and>
               has_at_most_digits pr (trade_quote_precision md)) \<longrightarrow>
            (\<exists>e. validate cache req = Inl e) \<and>
            (exactly_one req \<and> price_given req \<and> stop_price_given req \<longrightarrow>
               validate cache req = Inl invalid_order_value)) \<and>
         decimal_of_string ''0.01'' = Some (Dec 1 2) \<and>
         decimal_of_string ''100.005'' = Some (Dec 100005 3) \<and>
         decimal_of_string ''100.00'' = Some (Dec 10000 2) \<and>
         (\<forall>md. quote_tick_size md = Dec 1 2 \<longrightarrow>
            \<not> price_on_tick md (Dec 100005 3) \<and> price_on_tick md (Dec 10000 2))"
proof -
  have accepted: "\<exists>md pr. cache (symbol req) = Some md \<and> price req = Some pr \<and>
               is_multiple_of pr (quote_tick_size md) \<and>
               has_at_most_digits pr (trade_quote_precision md)"
    if "validate cache req = Inr q" for q
  proof -
    from that obtain md where md: "cache (symbol req) = Some md"
      and ok: "failed_check md req = None"
      by (auto simp: validate_Inr)
    from ok have "price_valid md req" by (simp add: failed_check_None)
    with assms obtain pr where "price req = Some pr" "price_on_tick md pr"
      by (auto simp: price_valid_def priced_def split: option.splits)
    with md show ?thesis by (auto simp: price_on_tick_def)
  qed
  have rejected: "(\<exists>e. validate cache req = Inl e) \<and>
            (exactly_one req \<and> price_given req \<and> stop_price_given req \<longrightarrow>
               validate cache req = Inl invalid_order_value)"
    if a: "cache (symbol req) = Some md \<and> price req = Some pr \<and>
            \<not> (is_multiple_of pr (quote_tick_size md) \<and>
               has_at_most_digits pr (trade_quote_precision md))" for md pr
  proof -
    from a assms have bad: "\<not> price_valid md req"
      by (auto simp: price_valid_def priced_def price_on_tick_def)
    then have "failed_check md req \<noteq> None" by (simp add: failed_check_None)
    with a have 1: "\<exists>e. validate cache req = Inl e"
      by (auto simp: validate_def split: option.splits)
    have 2: "validate cache req = Inl invalid_order_value"
      if "exactly_one req \<and> price_given req \<and> stop_price_given req"
    proof -
      from that bad have "failed_check md req = Some 5" by (simp add: failed_check_def)
      with a show ?thesis by (simp add: validate_def error_of_check_def)
    qed
    from 1 2 show ?thesis by blast
  qed
  have strings: "decimal_of_string ''0.01'' = Some (Dec 1 2)"
    "decimal_of_string ''100.005'' = Some (Dec 100005 3)"
    "decimal_of_string ''100.00'' = Some (Dec 10000 2)"
    by (simp_all add: decimal_of_string_def digit_of_char_def)
  have example: "\<not> price_on_tick md (Dec 100005 3) \<and> price_on_tick md (Dec 10000 2)"
    if t: "quote_tick_size md = Dec 1 2" for md :: market_metadata
  proof -
    have "\<not> is_multiple_of (Dec 100005 3) (Dec 1 2)"
      by (simp add: is_multiple_of_def)
    then have off: "\<not> price_on_tick md (Dec 100005 3)"
      by (simp add: price_on_tick_def t)
    have "(100::int) dvd 10000 * 10 ^ trade_quote_precision md"
      by (rule dvd_mult2) simp
    then have "has_at_most_digits (Dec 10000 2) (trade_quote_precision md)"
      unfolding has_at_most_digits_def decimal.sel
      by (simp only: mod_eq_0_iff_dvd power2_eq_square) simp
    moreover have "is_multiple_of (Dec 10000 2) (Dec 1 2)"
      by (simp add: is_multiple_of_def)
    ultimately have "price_on_tick md (Dec 10000 2)"
      by (simp only: price_on_tick_def t simp_thms)
    with off show ?thesis by blast
  qed
  show ?thesis
    using accepted rejected strings example by (intro conjI allI impI) blast+
qed

text \<open>The two prices on \<^verbatim>\<open>BTC/USDT\<close>, whose tick size is \<open>0.01\<close>.\<close>

theorem validate_price_tick_witness:
  "validate example_cache
     \<lparr>symbol = ''BTC/USDT'', action = Buy, otype = Limit, amount = Some (Dec 1 1),
      total_quote = None, price = decimal_of_string ''100.005'', stop_price = None\<rparr>
     = Inl invalid_order_value \<and>
   validate example_cache
     \<lparr>symbol = ''BTC/USDT'', action = Buy, otype = Limit, amount = Some (Dec 1 1),
      total_quote = None, price = decimal_of_string ''100.00'', stop_price = None\<rparr>
     = Inr (Some (Dec 1 1)) \<and>
   price_on_tick btc_usdt (Dec 10000 2) \<and> \<not> price_on_tick btc_usdt (Dec 100005 3)"
proof -
  have p1: "decimal_of_string ''100.005'' = Some (Dec 100005 3)"
    and p2: "decimal_of_string ''100.00'' = Some (Dec 10000 2)"
    by (simp_all add: decimal_of_string_def digit_of_char_def)
  let ?bad = "\<lparr>symbol = ''BTC/USDT'', action = Buy, otype = Limit, amount = Some (Dec 1 1),
      total_quote = None, price = Some (Dec 100005 3), stop_price = None\<rparr>"
  have k: "example_cache (symbol ?bad) = Some btc_usdt" by (simp add: example_cache_def)
  have t: "quote_tick_size btc_usdt = Dec 1 2" by (simp add: btc_usdt_def)
  have e: "exactly_one ?bad \<and> price_given ?bad \<and> stop_price_given ?bad"
    by (simp add: exactly_one_def price_given_def stop_price_given_def priced_def dec_pos_def)
  have n: "\<not> is_multiple_of (Dec 100005 3) (quote_tick_size btc_usdt)"
    by (simp add: t is_multiple_of_def)
  have good: "validate example_cache
     \<lparr>symbol = ''BTC/USDT'', action = Buy, otype = Limit, amount = Some (Dec 1 1),
      total_quote = None, price = Some (Dec 10000 2), stop_price = None\<rparr> = Inr (Some (Dec 1 1))"
    by (simp add: validator_defs)
  have th: "otype ?bad = Limit \<or> otype ?bad = Stop_limit" by simp
  show ?thesis
    using validate_price_tick [OF th, of example_cache] k t e n good
    unfolding p1 p2 by auto
qed

text \<open>
  Two requests that fail different checks, the second and the third, get the same error
  kind \<open>invalid_params\<close>: the error kinds of the seven checks are not all different.
\<close>

theorem checks_share_error_kinds:
  "first_failed example_cache
     \<lparr>symbol = ''BTC/USDT'', action = Buy, otype = Limit, amount = Some (Dec 1 1),
      total_quote = Some (Dec 100 0), price = Some (Dec 65000 0), stop_price = None\<rparr> = Some 2 \<and>
   validate example_cache
     \<lparr>symbol = ''BTC/USDT'', action = Buy, otype = Limit, amount = Some (Dec 1 1),
      total_quote = Some (Dec 100 0), price = Some (Dec 65000 0), stop_price = None\<rparr>
     = Inl invalid_params \<and>
   first_failed example_cache
     \<lparr>symbol = ''BTC/USDT'', action = Buy, otype = Limit, amount = Some (Dec 1 1),
      total_quote = None, price = None, stop_price = None\<rparr> = Some 3 \<and>
   validate example_cache
     \<lparr>symbol = ''BTC/USDT'', action = Buy, otype = Limit, amount = Some (Dec 1 1),
      total_quote = None, price = None, stop_price = None\<rparr>
     = Inl invalid_params"
  by (simp add: validate_def first_failed_def failed_check_def error_of_check_def exactly_one_def
      price_given_def priced_def example_cache_def)

text \<open>
  C6 (amended). The checks run in the order 1 to 7 and the first one that fails gives
  the error: \<open>invalid_pair\<close> for check 1, \<open>invalid_params\<close> for the checks 2 to 4 and
  \<open>invalid_order_value\<close> for the checks 5 to 7. So a request whose symbol is not in the
  cache gets \<open>invalid_pair\<close>, whatever else is wrong with it.
\<close>

theorem validate_check_order:
  "(cache (symbol req) = None \<longrightarrow> validate cache req = Inl invalid_pair) \<and>
   (\<forall>n. first_failed cache req = Some n \<longrightarrow>
      1 \<le> n \<and> n \<le> 7 \<and> validate cache req = Inl (error_of_check n)) \<and>
   (first_failed cache req = None \<longleftrightarrow> (\<exists>q. validate cache req = Inr q)) \<and>
   (first_failed cache req = Some 1 \<longleftrightarrow> cache (symbol req) = None) \<and>
   (\<forall>md. cache (symbol req) = Some md \<longrightarrow>
      (first_failed cache req = Some 2 \<longleftrightarrow> \<not> exactly_one req) \<and>
      (first_failed cache req = Some 3 \<longleftrightarrow> exactly_one req \<and> \<not> price_given req) \<and>
      (first_failed cache req = Some 4 \<longleftrightarrow>
         exactly_one req \<and> price_given req \<and> \<not> stop_price_given req) \<and>
      (first_failed cache req = Some 5 \<longleftrightarrow>
         exactly_one req \<and> price_given req \<and> stop_price_given req \<and> \<not> price_valid md req) \<and>
      (first_failed cache req = Some 6 \<longleftrightarrow>
         exactly_one req \<and> price_given req \<and> stop_price_given req \<and> price_valid md req \<and>
         \<not> quantity_precise md req) \<and>
      (first_failed cache req = Some 7 \<longleftrightarrow>
         exactly_one req \<and> price_given req \<and> stop_price_given req \<and> price_valid md req \<and>
         quantity_precise md req \<and> \<not> within_limits md req)) \<and>
   error_of_check 1 = invalid_pair \<and>
   error_of_check 2 = invalid_params \<and> error_of_check 3 = invalid_params \<and>
   error_of_check 4 = invalid_params \<and>
   error_of_check 5 = invalid_order_value \<and> error_of_check 6 = invalid_order_value \<and>
   error_of_check 7 = invalid_order_value"
proof (intro conjI allI impI)
  show "first_failed cache req = None \<longleftrightarrow> (\<exists>q. validate cache req = Inr q)"
    by (auto simp: validate_first_failed split: option.splits)
  show "first_failed cache req = Some 1 \<longleftrightarrow> cache (symbol req) = None"
    by (auto simp: first_failed_def dest: failed_check_range split: option.splits)
next
  assume "cache (symbol req) = None"
  then show "validate cache req = Inl invalid_pair" by (rule validate_unknown)
next
  fix n assume n: "first_failed cache req = Some n"
  then show "validate cache req = Inl (error_of_check n)"
    by (simp add: validate_first_failed)
  from n show "1 \<le> n" "n \<le> 7"
    by (auto simp: first_failed_def dest: failed_check_range split: option.splits)
next
  fix md assume md: "cache (symbol req) = Some md"
  then have ff: "first_failed cache req = failed_check md req"
    by (simp add: first_failed_def)
  show "first_failed cache req = Some 2 \<longleftrightarrow> \<not> exactly_one req"
    and "first_failed cache req = Some 3 \<longleftrightarrow> exactly_one req \<and> \<not> price_given req"
    and "first_failed cache req = Some 4 \<longleftrightarrow>
         exactly_one req \<and> price_given req \<and> \<not> stop_price_given req"
    and "first_failed cache req = Some 5 \<longleftrightarrow>
         exactly_one req \<and> price_given req \<and> stop_price_given req \<and> \<not> price_valid md req"
    and "first_failed cache req = Some 6 \<longleftrightarrow>
         exactly_one req \<and> price_given req \<and> stop_price_given req \<and> price_valid md req \<and>
         \<not> quantity_precise md req"
    and "first_failed cache req = Some 7 \<longleftrightarrow>
         exactly_one req \<and> price_given req \<and> stop_price_given req \<and> price_valid md req \<and>
         quantity_precise md req \<and> \<not> within_limits md req"
    unfolding ff by (simp_all add: failed_check_def)
qed (simp_all add: error_of_check_def)

text \<open>
  A limit order with both an amount and a total and without a price: \<open>invalid_pair\<close>
  for an unknown symbol, \<open>invalid_params\<close> for a known one.
\<close>

theorem validate_check_order_witness:
  "validate example_cache
     \<lparr>symbol = ''ETH/USDT'', action = Buy, otype = Limit, amount = Some (Dec 1 1),
      total_quote = Some (Dec 100 0), price = None, stop_price = None\<rparr> = Inl invalid_pair \<and>
   validate example_cache
     \<lparr>symbol = ''BTC/USDT'', action = Buy, otype = Limit, amount = Some (Dec 1 1),
      total_quote = Some (Dec 100 0), price = None, stop_price = None\<rparr> = Inl invalid_params"
proof -
  have a: "example_cache ''ETH/USDT'' = None" and b: "example_cache ''BTC/USDT'' = Some btc_usdt"
    by (simp_all add: example_cache_def)
  have c: "\<not> exactly_one \<lparr>symbol = ''BTC/USDT'', action = Buy, otype = Limit,
      amount = Some (Dec 1 1), total_quote = Some (Dec 100 0), price = None, stop_price = None\<rparr>"
    by (simp add: exactly_one_def)
  show ?thesis
    using validate_check_order [of example_cache
        "\<lparr>symbol = ''ETH/USDT'', action = Buy, otype = Limit, amount = Some (Dec 1 1),
          total_quote = Some (Dec 100 0), price = None, stop_price = None\<rparr>"]
      validate_check_order [of example_cache
        "\<lparr>symbol = ''BTC/USDT'', action = Buy, otype = Limit, amount = Some (Dec 1 1),
          total_quote = Some (Dec 100 0), price = None, stop_price = None\<rparr>"]
      a b c
    by simp
qed

end
